theory Spec2Isabelle
  imports Complex_Main
begin

section \<open>Product catalog service: request handlers over the Product model\<close>

text \<open>
  The handlers of \<^verbatim>\<open>service/routes.py\<close> are embedded as functions from the stored
  collection and the request to the new collection and the reply. The module
  \<^verbatim>\<open>service/models.py\<close> (the Product entity, the Category enumeration and the
  queries) is not among the sources; its operations are modelled from the specification
  and marked as such.
\<close>

subsection \<open>JSON values and Python truthiness\<close>

text \<open>
  What \<^verbatim>\<open>request.get_json()\<close> returns and \<^verbatim>\<open>jsonify\<close> accepts. A JSON object is the
  Python dict, as an association list read with \<open>map_of\<close>; Python's \<^verbatim>\<open>None\<close> is
  \<open>JNull\<close>. Numbers carry their exact value.
\<close>

datatype json =
    JNull
  | JBool bool
  | JNum rat
  | JStr string
  | JArr "json list"
  | JObj "(string \<times> json) list"

text \<open>\<^verbatim>\<open>not data\<close> in the handlers: the value is falsy when it is None, False, zero or empty.\<close>

fun truthy :: "json \<Rightarrow> bool" where
  "truthy JNull = False"
| "truthy (JBool b) = b"
| "truthy (JNum r) = (r \<noteq> 0)"
| "truthy (JStr s) = (s \<noteq> [])"
| "truthy (JArr xs) = (xs \<noteq> [])"
| "truthy (JObj kvs) = (kvs \<noteq> [])"

text \<open>\<^verbatim>\<open>if name:\<close> on the result of \<^verbatim>\<open>request.args.get\<close>: None and the empty string are falsy.\<close>

fun truthy_arg :: "string option \<Rightarrow> bool" where
  "truthy_arg None = False"
| "truthy_arg (Some s) = (s \<noteq> [])"

subsection \<open>Strings: \<^verbatim>\<open>str(int)\<close> and \<^verbatim>\<open>str.lower()\<close>\<close>

fun str_nat :: "nat \<Rightarrow> string" where
  "str_nat n =
     (if n < 10 then [''0123456789'' ! n]
      else str_nat (n div 10) @ [''0123456789'' ! (n mod 10)])"

declare str_nat.simps [simp del]

definition str_int :: "int \<Rightarrow> string" where
  "str_int i = (if i < 0 then CHR ''-'' # str_nat (nat (- i)) else str_nat (nat i))"

text \<open>
  \<^verbatim>\<open>str.lower()\<close> on the letters A to Z; every other character is kept. (Python also
  lowers letters outside ASCII; none of them becomes a character of "true", "1" or
  "yes", the only strings the result is compared with.)
\<close>

definition lower_char :: "char \<Rightarrow> char" where
  "lower_char c =
     (case map_of (zip ''ABCDEFGHIJKLMNOPQRSTUVWXYZ'' ''abcdefghijklmnopqrstuvwxyz'') c of
        None \<Rightarrow> c
      | Some d \<Rightarrow> d)"

definition lower :: "string \<Rightarrow> string" where
  "lower s = map lower_char s"

subsection \<open>The Product entity\<close>

text \<open>
  Modelled from the spec: the enumeration \<^verbatim>\<open>Category\<close> of \<^verbatim>\<open>service/models.py\<close>, with
  the members the data model lists.
\<close>

datatype category = UNKNOWN | CLOTHS | FOOD | HOUSEWARES | AUTOMOTIVE | TOOLS

text \<open>Modelled from the spec: the member's name, \<^verbatim>\<open>category.name\<close>.\<close>

fun category_name :: "category \<Rightarrow> string" where
  "category_name UNKNOWN = ''UNKNOWN''"
| "category_name CLOTHS = ''CLOTHS''"
| "category_name FOOD = ''FOOD''"
| "category_name HOUSEWARES = ''HOUSEWARES''"
| "category_name AUTOMOTIVE = ''AUTOMOTIVE''"
| "category_name TOOLS = ''TOOLS''"

text \<open>
  Modelled from the spec: the lookup of a member by its name; \<open>None\<close> when the string is
  not a recognized member name.
\<close>

definition category_of_name :: "string \<Rightarrow> category option" where
  "category_of_name s =
     map_of (map (\<lambda>c. (category_name c, c))
               [UNKNOWN, CLOTHS, FOOD, HOUSEWARES, AUTOMOTIVE, TOOLS]) s"

text \<open>
  Modelled from the spec: the class \<^verbatim>\<open>Product\<close> of \<^verbatim>\<open>service/models.py\<close>. The
  identifier is absent before creation. The attributes \<open>name\<close>, \<open>description\<close> and
  \<open>price\<close> hold the values read from the mapping as they are (Python attributes are
  untyped; \<open>JNull\<close> is None); \<open>available\<close> and \<open>category\<close> hold a checked value, or
  None before they are set.
\<close>

record product =
  id_field :: "int option"
  name :: json
  description :: json
  price :: json
  available :: "bool option"
  category :: "category option"

text \<open>Modelled from the spec: \<^verbatim>\<open>Product()\<close>, the entity with no attribute set.\<close>

definition Product :: product where
  "Product = \<lparr>id_field = None, name = JNull, description = JNull, price = JNull,
              available = None, category = None\<rparr>"

datatype error = ValidationError | PersistenceError | BuildError

text \<open>
  Modelled from the spec: \<^verbatim>\<open>data[key]\<close> inside deserialize. A missing key and a value
  that is not a mapping at all both end in \<open>ValidationError\<close>.
\<close>

fun field :: "json \<Rightarrow> string \<Rightarrow> error + json" where
  "field (JObj kvs) k = (case map_of kvs k of None \<Rightarrow> Inl ValidationError | Some v \<Rightarrow> Inr v)"
| "field _ k = Inl ValidationError"

text \<open>
  Modelled from the spec: \<^verbatim>\<open>Product.deserialize\<close>. It reads \<open>name\<close>, \<open>description\<close>,
  \<open>price\<close>, \<open>available\<close> and \<open>category\<close> from the mapping, in this order, and never
  reads \<open>id\<close>. It fails with \<open>ValidationError\<close> when a required key is missing or the
  value is not a mapping, when \<open>available\<close> is not a boolean, and when \<open>category\<close> is
  not a recognized member name. The entity is returned updated; on failure nothing is
  returned.
\<close>

definition deserialize :: "product \<Rightarrow> json \<Rightarrow> error + product" where
  "deserialize p data =
     (case field data ''name'' of
        Inl e \<Rightarrow> Inl e
      | Inr n \<Rightarrow>
     (case field data ''description'' of
        Inl e \<Rightarrow> Inl e
      | Inr d \<Rightarrow>
     (case field data ''price'' of
        Inl e \<Rightarrow> Inl e
      | Inr pr \<Rightarrow>
     (case field data ''available'' of
        Inl e \<Rightarrow> Inl e
      | Inr a \<Rightarrow>
     (case a of
        JBool b \<Rightarrow>
          (case field data ''category'' of
             Inl e \<Rightarrow> Inl e
           | Inr c \<Rightarrow>
          (case c of
             JStr s \<Rightarrow>
               (case category_of_name s of
                  None \<Rightarrow> Inl ValidationError
                | Some cat \<Rightarrow>
                    Inr (p\<lparr>name := n, description := d, price := pr,
                           available := Some b, category := Some cat\<rparr>))
           | _ \<Rightarrow> Inl ValidationError))
      | _ \<Rightarrow> Inl ValidationError)))))"

text \<open>
  Modelled from the spec: the identifier an entity carries after
  \<^verbatim>\<open>Product.deserialize\<close>. The specification names the five attributes deserialize
  reads and says that, on update, the identifier is set again on the entity after
  deserialize has overwritten it; whether the missing code also overwrites the
  identifier from the mapping is not in the sources. The identifier after a successful
  deserialize is therefore a parameter, \<open>id_after\<close>, a function of the entity and the
  mapping. \<open>deserialize\<close> is the instance that keeps the identifier.
\<close>

definition deserialize_id ::
  "(product \<Rightarrow> json \<Rightarrow> int option) \<Rightarrow> product \<Rightarrow> json \<Rightarrow> error + product" where
  "deserialize_id id_after p data =
     (case deserialize p data of
        Inl e \<Rightarrow> Inl e
      | Inr q \<Rightarrow> Inr (q\<lparr>id_field := id_after p data\<rparr>))"

text \<open>
  Modelled from the spec: \<^verbatim>\<open>Product.serialize\<close>. It produces the mapping with the keys
  \<open>id\<close>, \<open>name\<close>, \<open>description\<close>, \<open>price\<close>, \<open>available\<close>, \<open>category\<close> (the member's
  name) and never fails; an attribute that is None is written as null.
\<close>

definition serialize :: "product \<Rightarrow> json" where
  "serialize p =
     JObj [(''id'', case id_field p of None \<Rightarrow> JNull | Some i \<Rightarrow> JNum (of_int i)),
           (''name'', name p),
           (''description'', description p),
           (''price'', price p),
           (''available'', case available p of None \<Rightarrow> JNull | Some b \<Rightarrow> JBool b),
           (''category'', case category p of None \<Rightarrow> JNull | Some c \<Rightarrow> JStr (category_name c))]"

subsection \<open>The persisted collection and the query layer\<close>

text \<open>
  Modelled from the spec: the table behind \<^verbatim>\<open>db.session\<close>. The rows are kept in
  storage order; \<open>next_id\<close> is the identifier the storage layer assigns next. The
  storage engine itself is taken to work: the only persistence failure modelled is the
  one the specification names, an update of an identifier that is not stored.
\<close>

record database =
  rows :: "product list"
  next_id :: int

text \<open>Modelled from the spec: \<^verbatim>\<open>Product.all()\<close>, the entire collection.\<close>

definition all_products :: "database \<Rightarrow> product list" where
  "all_products db = rows db"

text \<open>Modelled from the spec: \<^verbatim>\<open>Product.find(id)\<close>, the record with this identifier or absent.\<close>

definition find_product :: "database \<Rightarrow> int \<Rightarrow> product option" where
  "find_product db i = List.find (\<lambda>r. id_field r = Some i) (rows db)"

text \<open>Modelled from the spec: \<^verbatim>\<open>Product.find_by_name\<close>, exact match on the name.\<close>

definition find_by_name :: "database \<Rightarrow> string \<Rightarrow> product list" where
  "find_by_name db n = filter (\<lambda>r. name r = JStr n) (rows db)"

text \<open>Modelled from the spec: \<^verbatim>\<open>Product.find_by_category\<close>, exact match on the member.\<close>

definition find_by_category :: "database \<Rightarrow> category \<Rightarrow> product list" where
  "find_by_category db c = filter (\<lambda>r. category r = Some c) (rows db)"

text \<open>Modelled from the spec: \<^verbatim>\<open>Product.find_by_availability\<close>, exact match on the boolean.\<close>

definition find_by_availability :: "database \<Rightarrow> bool \<Rightarrow> product list" where
  "find_by_availability db a = filter (\<lambda>r. available r = Some a) (rows db)"

text \<open>
  Modelled from the spec: \<^verbatim>\<open>Product.create\<close>. It assigns a new unique identifier and
  persists the record; the entity with its identifier is returned with the collection.
\<close>

definition create :: "database \<Rightarrow> product \<Rightarrow> error + (database \<times> product)" where
  "create db p =
     (let p' = p\<lparr>id_field := Some (next_id db)\<rparr>
      in Inr (db\<lparr>rows := rows db @ [p'], next_id := next_id db + 1\<rparr>, p'))"

text \<open>
  Modelled from the spec: \<^verbatim>\<open>Product.update\<close>. It persists the full record of an
  existing identifier and fails with \<open>PersistenceError\<close> if the identifier does not
  exist in storage.
\<close>

definition update :: "database \<Rightarrow> product \<Rightarrow> error + database" where
  "update db p =
     (case id_field p of
        None \<Rightarrow> Inl PersistenceError
      | Some i \<Rightarrow>
          (case find_product db i of
             None \<Rightarrow> Inl PersistenceError
           | Some _ \<Rightarrow>
               Inr (db\<lparr>rows := map (\<lambda>r. if id_field r = Some i then p else r) (rows db)\<rparr>)))"

text \<open>
  Modelled from the spec: \<^verbatim>\<open>Product.delete\<close>. It removes the record with this
  identifier and is a no-op if the record is absent.
\<close>

definition delete :: "database \<Rightarrow> product \<Rightarrow> database" where
  "delete db p = db\<lparr>rows := filter (\<lambda>r. id_field r \<noteq> id_field p) (rows db)\<rparr>"

text \<open>
  The storage invariant: every row has an identifier below \<open>next_id\<close>, and no two rows
  share one.
\<close>

definition stored_ids :: "database \<Rightarrow> int option list" where
  "stored_ids db = map id_field (rows db)"

definition db_ok :: "database \<Rightarrow> bool" where
  "db_ok db \<longleftrightarrow>
     distinct (stored_ids db) \<and>
     list_all (\<lambda>r. case id_field r of None \<Rightarrow> False | Some i \<Rightarrow> i < next_id db) (rows db)"

subsection \<open>Requests and replies\<close>

text \<open>
  The parts of Flask's \<^verbatim>\<open>request\<close> the handlers read: the headers (looked up by the
  name the code writes), the query parameters (\<^verbatim>\<open>request.args.get\<close> gives the first
  value of a key, or None), the body parsed as JSON (\<open>None\<close> when the body is missing or
  is not JSON), and the scheme and host that \<^verbatim>\<open>url_for(..., _external=True)\<close> puts
  before the path.
\<close>

record request =
  headers :: "(string \<times> string) list"
  args :: "(string \<times> string) list"
  json_body :: "json option"
  host_url :: string

datatype body = Json json | Text string

text \<open>
  A handler returns a body, a status and headers (\<open>Reply\<close>), or leaves through
  \<^verbatim>\<open>abort(status, description)\<close> (\<open>Abort\<close>), or lets an exception of the model
  escape (\<open>Raised\<close>).
\<close>

datatype reply =
    Reply body nat "(string \<times> string) list"
  | Abort nat string
  | Raised error

fun status_code :: "reply \<Rightarrow> nat option" where
  "status_code (Reply b s h) = Some s"
| "status_code (Abort s d) = Some s"
| "status_code (Raised e) = None"

definition HTTP_200_OK :: nat where "HTTP_200_OK = 200"
definition HTTP_201_CREATED :: nat where "HTTP_201_CREATED = 201"
definition HTTP_204_NO_CONTENT :: nat where "HTTP_204_NO_CONTENT = 204"
definition HTTP_400_BAD_REQUEST :: nat where "HTTP_400_BAD_REQUEST = 400"
definition HTTP_404_NOT_FOUND :: nat where "HTTP_404_NOT_FOUND = 404"
definition HTTP_415_UNSUPPORTED_MEDIA_TYPE :: nat where "HTTP_415_UNSUPPORTED_MEDIA_TYPE = 415"

subsection \<open>The handlers of routes.py\<close>

text \<open>\<^verbatim>\<open>check_content_type\<close>: \<open>Some\<close> reply when it aborts, \<open>None\<close> when it returns.\<close>

definition check_content_type :: "request \<Rightarrow> string \<Rightarrow> reply option" where
  "check_content_type req content_type =
     (case map_of (headers req) ''Content-Type'' of
        None \<Rightarrow>
          Some (Abort HTTP_415_UNSUPPORTED_MEDIA_TYPE (''Content-Type must be '' @ content_type))
      | Some v \<Rightarrow>
          if v \<noteq> content_type
          then Some (Abort HTTP_415_UNSUPPORTED_MEDIA_TYPE (''Content-Type must be '' @ content_type))
          else None)"

text \<open>
  \<^verbatim>\<open>request.get_json()\<close>, called once the media type is known to be JSON: Flask answers
  a body that does not parse with 400 Bad Request.
\<close>

definition get_json :: "request \<Rightarrow> reply + json" where
  "get_json req =
     (case json_body req of
        None \<Rightarrow>
          Inl (Abort HTTP_400_BAD_REQUEST
                 ''The browser (or proxy) sent a request that this server could not understand.'')
      | Some data \<Rightarrow> Inr data)"

text \<open>
  \<^verbatim>\<open>url_for("get_products", product_id=..., _external=True)\<close>, the rule being
  \<^verbatim>\<open>/api/products/<int:product_id>\<close>; building the URL fails without an identifier.
\<close>

definition url_for_get_products :: "request \<Rightarrow> int option \<Rightarrow> error + string" where
  "url_for_get_products req product_id =
     (case product_id of
        None \<Rightarrow> Inl BuildError
      | Some i \<Rightarrow> Inr (host_url req @ ''/api/products/'' @ str_int i))"

definition not_found_message :: "int \<Rightarrow> string" where
  "not_found_message product_id =
     ''Product with id '' @ [CHR 0x27] @ str_int product_id @ [CHR 0x27] @ '' not found''"

text \<open>\<^verbatim>\<open>reset_products\<close>: removes all products.\<close>

definition reset_products :: "database \<Rightarrow> database \<times> reply" where
  "reset_products db = (db\<lparr>rows := []\<rparr>, Reply (Text []) HTTP_204_NO_CONTENT [])"

text \<open>\<^verbatim>\<open>create_products\<close>.\<close>

definition create_products :: "database \<Rightarrow> request \<Rightarrow> database \<times> reply" where
  "create_products db req =
     (case check_content_type req ''application/json'' of
        Some r \<Rightarrow> (db, r)
      | None \<Rightarrow>
     (case get_json req of
        Inl r \<Rightarrow> (db, r)
      | Inr data \<Rightarrow>
     if \<not> truthy data then (db, Abort HTTP_400_BAD_REQUEST ''Invalid JSON data'')
     else
     (case deserialize Product data of
        Inl e \<Rightarrow> (db, Raised e)
      | Inr product \<Rightarrow>
     (case create db product of
        Inl e \<Rightarrow> (db, Raised e)
      | Inr (db', product') \<Rightarrow>
     (case url_for_get_products req (id_field product') of
        Inl e \<Rightarrow> (db', Raised e)
      | Inr location_url \<Rightarrow>
          (db', Reply (Json (serialize product')) HTTP_201_CREATED
                  [(''Location'', location_url)]))))))"

text \<open>\<^verbatim>\<open>get_products\<close>: reads a product by its identifier.\<close>

definition get_products :: "database \<Rightarrow> int \<Rightarrow> reply" where
  "get_products db product_id =
     (case find_product db product_id of
        None \<Rightarrow> Abort HTTP_404_NOT_FOUND (not_found_message product_id)
      | Some product \<Rightarrow> Reply (Json (serialize product)) HTTP_200_OK [])"

text \<open>
  \<^verbatim>\<open>update_products\<close>. The entity found is changed by deserialize, which may leave
  any identifier on it (\<open>id_after\<close>), then gets the identifier of the path and is
  persisted; when the handler leaves early nothing is committed.
\<close>

definition update_products ::
  "(product \<Rightarrow> json \<Rightarrow> int option) \<Rightarrow> database \<Rightarrow> int \<Rightarrow> request \<Rightarrow> database \<times> reply" where
  "update_products id_after db product_id req =
     (case check_content_type req ''application/json'' of
        Some r \<Rightarrow> (db, r)
      | None \<Rightarrow>
     (case find_product db product_id of
        None \<Rightarrow> (db, Abort HTTP_404_NOT_FOUND (not_found_message product_id))
      | Some product \<Rightarrow>
     (case get_json req of
        Inl r \<Rightarrow> (db, r)
      | Inr data \<Rightarrow>
     if \<not> truthy data then (db, Abort HTTP_400_BAD_REQUEST ''Invalid JSON data'')
     else
     (case deserialize_id id_after product data of
        Inl e \<Rightarrow> (db, Raised e)
      | Inr product1 \<Rightarrow>
     (let product2 = product1\<lparr>id_field := Some product_id\<rparr> in
      case update db product2 of
        Inl e \<Rightarrow> (db, Raised e)
      | Inr db' \<Rightarrow> (db', Reply (Json (serialize product2)) HTTP_200_OK []))))))"

text \<open>\<^verbatim>\<open>delete_products\<close>.\<close>

definition delete_products :: "database \<Rightarrow> int \<Rightarrow> database \<times> reply" where
  "delete_products db product_id =
     (case find_product db product_id of
        Some product \<Rightarrow> (delete db product, Reply (Text []) HTTP_204_NO_CONTENT [])
      | None \<Rightarrow> (db, Reply (Text []) HTTP_204_NO_CONTENT []))"

text \<open>
  \<^verbatim>\<open>list_products\<close>. The handler passes the raw query string to
  \<^verbatim>\<open>Product.find_by_category\<close>, where the model's tests pass a member of the
  enumeration; what the missing model does with a string is a parameter,
  \<open>by_category\<close>.
\<close>

definition list_products ::
  "database \<Rightarrow> (string \<Rightarrow> product list) \<Rightarrow> request \<Rightarrow> reply" where
  "list_products db by_category req =
     (let name = map_of (args req) ''name'';
          category = map_of (args req) ''category'';
          available = map_of (args req) ''available'';
          products =
            (if truthy_arg name then find_by_name db (the name)
             else if truthy_arg category then by_category (the category)
             else
               (case available of
                  Some a \<Rightarrow> find_by_availability db (lower a \<in> set [''true'', ''1'', ''yes''])
                | None \<Rightarrow> all_products db));
          results = map serialize products
      in Reply (Json (JArr results)) HTTP_200_OK [])"

subsection \<open>Field mappings: valid and bad input\<close>

definition required_keys :: "string list" where
  "required_keys = [''name'', ''description'', ''price'', ''available'', ''category'']"

text \<open>
  The bad inputs as the specification lists them: the value is not a mapping, or a
  required key is missing, or \<open>available\<close> is present but not a boolean, or
  \<open>category\<close> is present but not a recognized member name.
\<close>

definition bad_input :: "json \<Rightarrow> bool" where
  "bad_input data =
     (case data of
        JObj kvs \<Rightarrow>
          (\<exists>k \<in> set required_keys. map_of kvs k = None) \<or>
          (case map_of kvs ''available'' of
             None \<Rightarrow> False | Some (JBool b) \<Rightarrow> False | Some _ \<Rightarrow> True) \<or>
          (case map_of kvs ''category'' of
             None \<Rightarrow> False | Some (JStr s) \<Rightarrow> category_of_name s = None | Some _ \<Rightarrow> True)
      | _ \<Rightarrow> True)"

definition is_digit :: "char \<Rightarrow> bool" where
  "is_digit c \<longleftrightarrow> c \<in> set ''0123456789''"

text \<open>A non-negative decimal written as text: digits, then possibly a point and digits.\<close>

definition decimal_text :: "string \<Rightarrow> bool" where
  "decimal_text s =
     (takeWhile is_digit s \<noteq> [] \<and>
      (case dropWhile is_digit s of
         [] \<Rightarrow> True
       | c # fp \<Rightarrow> c = CHR ''.'' \<and> fp \<noteq> [] \<and> list_all is_digit fp))"

text \<open>
  A valid product field mapping, after the data model: a non-empty text \<open>name\<close>, a text
  \<open>description\<close>, a non-negative decimal \<open>price\<close> (as a number or as text), a boolean
  \<open>available\<close> and the name of a member as \<open>category\<close>. Other keys, \<open>id\<close> among them,
  may be present.
\<close>

definition valid_mapping :: "json \<Rightarrow> bool" where
  "valid_mapping data =
     (case data of
        JObj kvs \<Rightarrow>
          (case map_of kvs ''name'' of Some (JStr s) \<Rightarrow> s \<noteq> [] | _ \<Rightarrow> False) \<and>
          (case map_of kvs ''description'' of Some (JStr s) \<Rightarrow> True | _ \<Rightarrow> False) \<and>
          (case map_of kvs ''price'' of
             Some (JNum r) \<Rightarrow> 0 \<le> r | Some (JStr s) \<Rightarrow> decimal_text s | _ \<Rightarrow> False) \<and>
          (case map_of kvs ''available'' of Some (JBool b) \<Rightarrow> True | _ \<Rightarrow> False) \<and>
          (case map_of kvs ''category'' of
             Some (JStr s) \<Rightarrow> category_of_name s \<noteq> None | _ \<Rightarrow> False)
      | _ \<Rightarrow> False)"

text \<open>\<^verbatim>\<open>entity_from(M)\<close>: a new entity filled from the mapping.\<close>

definition entity_from :: "json \<Rightarrow> error + product" where
  "entity_from m = deserialize Product m"

subsection \<open>Sample data\<close>

definition fedora_body :: json where
  "fedora_body =
     JObj [(''name'', JStr ''Fedora''), (''description'', JStr ''A red hat''),
           (''price'', JNum (25 / 2)), (''available'', JBool True),
           (''category'', JStr ''CLOTHS'')]"

definition fedora :: product where
  "fedora = \<lparr>id_field = Some 1, name = JStr ''Fedora'', description = JStr ''A red hat'',
             price = JNum (25 / 2), available = Some True, category = Some CLOTHS\<rparr>"

definition apple :: product where
  "apple = \<lparr>id_field = Some 2, name = JStr ''Apple'', description = JStr ''A fruit'',
            price = JStr ''0.50'', available = Some False, category = Some FOOD\<rparr>"

definition shop :: database where
  "shop = \<lparr>rows = [fedora, apple], next_id = 3\<rparr>"

definition json_request :: "json \<Rightarrow> request" where
  "json_request data =
     \<lparr>headers = [(''Content-Type'', ''application/json'')], args = [],
      json_body = Some data, host_url = ''http://localhost''\<rparr>"

definition query_request :: "(string \<times> string) list \<Rightarrow> request" where
  "query_request qs =
     \<lparr>headers = [], args = qs, json_body = None, host_url = ''http://localhost''\<rparr>"

text \<open>A create body that also carries an identifier chosen by the client.\<close>

definition client_id_body :: json where
  "client_id_body =
     JObj [(''id'', JNum 99), (''name'', JStr ''Fedora''), (''description'', JStr ''A red hat''),
           (''price'', JNum (25 / 2)), (''available'', JBool True),
           (''category'', JStr ''CLOTHS'')]"

definition update_body :: json where
  "update_body =
     JObj [(''id'', JNum 99), (''name'', JStr ''Updated Name''),
           (''description'', JStr ''A red hat''), (''price'', JNum (25 / 2)),
           (''available'', JBool True), (''category'', JStr ''CLOTHS'')]"

text \<open>An update body whose identifier is the one of another stored record.\<close>

definition clash_body :: json where
  "clash_body =
     JObj [(''id'', JNum 2), (''name'', JStr ''Updated Name''),
           (''description'', JStr ''A red hat''), (''price'', JNum (25 / 2)),
           (''available'', JBool True), (''category'', JStr ''CLOTHS'')]"

text \<open>
  A deserialize that overwrites the identifier with the \<open>id\<close> of the mapping when that
  is a number, for the sample requests.
\<close>

definition id_from_body :: "product \<Rightarrow> json \<Rightarrow> int option" where
  "id_from_body p data =
     (case field data ''id'' of
        Inr (JNum r) \<Rightarrow> Some (floor r)
      | _ \<Rightarrow> id_field p)"

text \<open>A body whose \<open>available\<close> is the string "yes".\<close>

definition yes_body :: json where
  "yes_body =
     JObj [(''name'', JStr ''Fedora''), (''description'', JStr ''A red hat''),
           (''price'', JNum (25 / 2)), (''available'', JStr ''yes''),
           (''category'', JStr ''CLOTHS'')]"

definition charset_request :: "json \<Rightarrow> request" where
  "charset_request data =
     \<lparr>headers = [(''Content-Type'', ''application/json; charset=utf-8'')], args = [],
      json_body = Some data, host_url = ''http://localhost''\<rparr>"

text \<open>A reading of the raw category string by member name, for the sample requests.\<close>

definition by_member_name :: "database \<Rightarrow> string \<Rightarrow> product list" where
  "by_member_name db s =
     (case category_of_name s of None \<Rightarrow> [] | Some c \<Rightarrow> find_by_category db c)"

section \<open>Properties\<close>

lemmas status_defs =
  HTTP_200_OK_def HTTP_201_CREATED_def HTTP_204_NO_CONTENT_def
  HTTP_400_BAD_REQUEST_def HTTP_404_NOT_FOUND_def HTTP_415_UNSUPPORTED_MEDIA_TYPE_def

subsection \<open>The entity: deserialize and serialize\<close>

lemma category_of_name_name: "category_of_name (category_name c) = Some c"
  by (cases c) (simp_all add: category_of_name_def)

lemma deserialize_bad_input:
  "deserialize p data = Inl ValidationError \<longleftrightarrow> bad_input data"
proof (cases data)
  case (JObj kvs)
  show ?thesis
    unfolding JObj deserialize_def bad_input_def required_keys_def
    by (auto split: option.splits json.splits sum.splits)
qed (simp_all add: deserialize_def bad_input_def)

lemma deserialize_only_ValidationError:
  "deserialize p data = Inl e \<Longrightarrow> e = ValidationError"
  unfolding deserialize_def
  by (cases data) (auto split: option.splits json.splits sum.splits)

lemma map_of_filter_neq:
  "k \<noteq> k' \<Longrightarrow> map_of (filter (\<lambda>kv. fst kv \<noteq> k') kvs) k = map_of kvs k"
  by (induction kvs) auto

lemma field_without_id:
  "k \<noteq> ''id'' \<Longrightarrow> field (JObj (filter (\<lambda>kv. fst kv \<noteq> ''id'') kvs)) k = field (JObj kvs) k"
  by (simp add: map_of_filter_neq)

lemma deserialize_without_id:
  "deserialize p (JObj (filter (\<lambda>kv. fst kv \<noteq> ''id'') kvs)) = deserialize p (JObj kvs)"
proof -
  let ?kvs' = "filter (\<lambda>kv. fst kv \<noteq> ''id'') kvs"
  have "field (JObj ?kvs') ''name'' = field (JObj kvs) ''name''"
    and "field (JObj ?kvs') ''description'' = field (JObj kvs) ''description''"
    and "field (JObj ?kvs') ''price'' = field (JObj kvs) ''price''"
    and "field (JObj ?kvs') ''available'' = field (JObj kvs) ''available''"
    and "field (JObj ?kvs') ''category'' = field (JObj kvs) ''category''"
    by (simp_all add: map_of_filter_neq)
  then show ?thesis
    unfolding deserialize_def by (simp only:)
qed

lemma valid_not_bad: "valid_mapping data \<Longrightarrow> \<not> bad_input data"
  unfolding valid_mapping_def bad_input_def required_keys_def
  by (cases data) (auto split: option.splits json.splits)

lemma valid_truthy: "valid_mapping data \<Longrightarrow> truthy data"
  unfolding valid_mapping_def
  by (cases data) (auto split: option.splits json.splits)

lemma deserialize_serialize:
  "available e = Some b \<Longrightarrow> category e = Some c \<Longrightarrow>
   deserialize p (serialize e) =
     Inr (p\<lparr>name := name e, description := description e, price := price e,
           available := available e, category := category e\<rparr>)"
  by (simp add: deserialize_def serialize_def category_of_name_name)

lemma deserialize_sets:
  "deserialize p data = Inr q \<Longrightarrow>
     id_field q = id_field p \<and> (\<exists>b. available q = Some b) \<and> (\<exists>c. category q = Some c)"
  unfolding deserialize_def
  by (auto split: option.splits json.splits sum.splits)

subsection \<open>The collection\<close>

lemma find_product_Some:
  "find_product db i = Some p \<Longrightarrow> id_field p = Some i \<and> p \<in> set (rows db)"
  by (auto simp: find_product_def find_Some_iff)

lemma find_map_same:
  "(\<And>x. P (f x) = P x) \<Longrightarrow> List.find P (map f xs) = map_option f (List.find P xs)"
  by (induction xs) auto

lemma find_filter_not: "List.find P (filter (\<lambda>r. \<not> P r) xs) = None"
  by (simp add: find_None_iff)

lemma db_ok_fresh: "db_ok db \<Longrightarrow> find_product db (next_id db) = None"
  by (auto simp: db_ok_def find_product_def find_None_iff list_all_iff split: option.splits)

lemma db_ok_below:
  "db_ok db \<Longrightarrow> r \<in> set (rows db) \<Longrightarrow> \<exists>i. id_field r = Some i \<and> i < next_id db"
  by (auto simp: db_ok_def list_all_iff split: option.splits)

lemma db_ok_create:
  assumes ok: "db_ok db" and c: "create db p = Inr (db', p')"
  shows "db_ok db'"
proof -
  let ?p = "p\<lparr>id_field := Some (next_id db)\<rparr>"
  from c have db': "rows db' = rows db @ [?p]" "next_id db' = next_id db + 1"
    by (auto simp: create_def Let_def)
  have new: "Some (next_id db) \<notin> set (stored_ids db)"
    using db_ok_below [OF ok] by (fastforce simp: stored_ids_def)
  have "distinct (stored_ids db')"
    using ok new by (simp add: db_ok_def stored_ids_def db')
  moreover have "list_all (\<lambda>r. case id_field r of None \<Rightarrow> False | Some i \<Rightarrow> i < next_id db') (rows db')"
    using db_ok_below [OF ok] by (fastforce simp: db' list_all_iff)
  ultimately show ?thesis by (simp add: db_ok_def)
qed

lemma find_product_append_new:
  "find_product db i = None \<Longrightarrow> id_field p = Some i \<Longrightarrow>
   find_product (db\<lparr>rows := rows db @ [p], next_id := n\<rparr>) i = Some p"
  by (induction "rows db" arbitrary: db)
     (auto simp: find_product_def find_None_iff find_Some_iff nth_append)

lemma update_found:
  assumes "find_product db i = Some p" and "id_field q = Some i"
  shows "update db q = Inr (db\<lparr>rows := map (\<lambda>r. if id_field r = Some i then q else r) (rows db)\<rparr>)"
  using assms by (simp add: update_def)

lemma find_product_after_update:
  assumes found: "find_product db i = Some p" and q: "id_field q = Some i"
  shows "find_product (db\<lparr>rows := map (\<lambda>r. if id_field r = Some i then q else r) (rows db)\<rparr>) i
           = Some q"
proof -
  let ?P = "\<lambda>r. id_field r = Some i"
  let ?f = "\<lambda>r. if id_field r = Some i then q else r"
  have same: "\<And>x. ?P (?f x) = ?P x" using q by simp
  have "List.find ?P (map ?f (rows db)) = map_option ?f (List.find ?P (rows db))"
    by (rule find_map_same [of ?P ?f, OF same])
  also have "\<dots> = Some (?f p)" using found by (simp add: find_product_def)
  also have "?f p = q" using find_product_Some [OF found] by simp
  finally show ?thesis by (simp add: find_product_def)
qed

lemma stored_ids_after_update:
  assumes q: "id_field q = Some i"
  shows "stored_ids (db\<lparr>rows := map (\<lambda>r. if id_field r = Some i then q else r) (rows db)\<rparr>)
           = stored_ids db"
  using q by (simp add: stored_ids_def)

lemma find_product_after_delete:
  "id_field p = Some i \<Longrightarrow> find_product (delete db p) i = None"
  by (simp add: find_product_def delete_def find_None_iff)

subsection \<open>The handlers\<close>

lemma check_content_type_passes:
  "check_content_type req ct = None \<longleftrightarrow> map_of (headers req) ''Content-Type'' = Some ct"
  by (auto simp: check_content_type_def split: option.splits)

lemma check_content_type_aborts:
  "map_of (headers req) ''Content-Type'' \<noteq> Some ct \<Longrightarrow>
   check_content_type req ct = Some (Abort 415 (''Content-Type must be '' @ ct))"
  by (auto simp: check_content_type_def status_defs split: option.splits)

lemma find_map_other:
  "(\<And>x. P (f x) = P x) \<Longrightarrow> (\<And>x. P x \<Longrightarrow> f x = x) \<Longrightarrow>
   List.find P (map f xs) = List.find P xs"
  by (induction xs) auto

lemma find_product_other_after_update:
  assumes q: "id_field q = Some i" and other: "j \<noteq> i"
  shows "find_product (db\<lparr>rows := map (\<lambda>r. if id_field r = Some i then q else r) (rows db)\<rparr>) j
           = find_product db j"
proof -
  let ?P = "\<lambda>r. id_field r = Some j"
  let ?f = "\<lambda>r. if id_field r = Some i then q else r"
  have same: "\<And>x. ?P (?f x) = ?P x" using q other by auto
  have fixed: "\<And>x. ?P x \<Longrightarrow> ?f x = x" using other by auto
  have "List.find ?P (map ?f (rows db)) = List.find ?P (rows db)"
    by (rule find_map_other [of ?P ?f, OF same fixed])
  then show ?thesis by (simp add: find_product_def)
qed

lemma deserialize_id_Inr:
  "deserialize_id id_after p data = Inr q \<Longrightarrow>
   \<exists>q0. deserialize p data = Inr q0 \<and> q = q0\<lparr>id_field := id_after p data\<rparr>"
  by (auto simp: deserialize_id_def split: sum.splits)

lemma update_products_success:
  assumes found: "find_product db product_id = Some p"
    and ct: "map_of (headers req) ''Content-Type'' = Some ''application/json''"
    and body: "json_body req = Some data"
    and t: "truthy data"
    and d: "deserialize_id id_after p data = Inr q"
  shows "update_products id_after db product_id req =
           (db\<lparr>rows := map (\<lambda>r. if id_field r = Some product_id
                                 then q\<lparr>id_field := Some product_id\<rparr> else r) (rows db)\<rparr>,
            Reply (Json (serialize (q\<lparr>id_field := Some product_id\<rparr>))) 200 [])"
proof -
  have chk: "check_content_type req ''application/json'' = None"
    using ct by (simp add: check_content_type_passes)
  have u: "update db (q\<lparr>id_field := Some product_id\<rparr>) =
      Inr (db\<lparr>rows := map (\<lambda>r. if id_field r = Some product_id
                                then q\<lparr>id_field := Some product_id\<rparr> else r) (rows db)\<rparr>)"
    by (rule update_found [OF found]) simp
  show ?thesis
    unfolding update_products_def
    by (simp add: chk found get_json_def body t d u Let_def status_defs)
qed

lemma update_products_outcome:
  assumes found: "find_product db product_id = Some p"
  shows "(\<exists>r. update_products id_after db product_id req = (db, r)) \<or>
         (\<exists>q. update_products id_after db product_id req =
                (db\<lparr>rows := map (\<lambda>r. if id_field r = Some product_id
                                      then q\<lparr>id_field := Some product_id\<rparr> else r) (rows db)\<rparr>,
                 Reply (Json (serialize (q\<lparr>id_field := Some product_id\<rparr>))) 200 []))"
proof (cases "map_of (headers req) ''Content-Type'' = Some ''application/json''")
  case False
  then show ?thesis
    by (simp add: update_products_def check_content_type_aborts)
next
  case ct: True
  then have chk: "check_content_type req ''application/json'' = None"
    by (simp add: check_content_type_passes)
  show ?thesis
  proof (cases "json_body req")
    case None
    then show ?thesis
      by (simp add: update_products_def chk found get_json_def)
  next
    case (Some data)
    show ?thesis
    proof (cases "truthy data")
      case False
      then show ?thesis
        by (simp add: update_products_def chk found get_json_def Some)
    next
      case t: True
      show ?thesis
      proof (cases "deserialize_id id_after p data")
        case (Inl e)
        then show ?thesis
          by (simp add: update_products_def chk found get_json_def Some t)
      next
        case (Inr q)
        from update_products_success [OF found ct Some t Inr] show ?thesis by blast
      qed
    qed
  qed
qed

text \<open>
  What persisting the entity would do without the identifier of the path: with the
  identifier of the mapping on it, the update of the model has no record to write.
\<close>

lemma update_with_body_id:
  "deserialize_id id_from_body fedora update_body =
     Inr (fedora\<lparr>id_field := Some 99, name := JStr ''Updated Name''\<rparr>) \<and>
   update shop (fedora\<lparr>id_field := Some 99, name := JStr ''Updated Name''\<rparr>) =
     Inl PersistenceError"
  by (simp add: deserialize_id_def deserialize_def id_from_body_def update_body_def
        category_of_name_def update_def find_product_def shop_def fedora_def apple_def)

lemma list_products_eq:
  "list_products db by_category req =
     Reply (Json (JArr (map serialize
       (if truthy_arg (map_of (args req) ''name'') then find_by_name db (the (map_of (args req) ''name''))
        else if truthy_arg (map_of (args req) ''category'')
          then by_category (the (map_of (args req) ''category''))
        else (case map_of (args req) ''available'' of
                Some a \<Rightarrow> find_by_availability db (lower a \<in> set [''true'', ''1'', ''yes''])
              | None \<Rightarrow> all_products db))))) 200 []"
  by (simp add: list_products_def Let_def status_defs)

subsection \<open>Lower case\<close>

lemma lower_char_cases:
  "lower_char c = CHR ''t'' \<longleftrightarrow> c = CHR ''t'' \<or> c = CHR ''T''"
  "lower_char c = CHR ''r'' \<longleftrightarrow> c = CHR ''r'' \<or> c = CHR ''R''"
  "lower_char c = CHR ''u'' \<longleftrightarrow> c = CHR ''u'' \<or> c = CHR ''U''"
  "lower_char c = CHR ''e'' \<longleftrightarrow> c = CHR ''e'' \<or> c = CHR ''E''"
  "lower_char c = CHR ''y'' \<longleftrightarrow> c = CHR ''y'' \<or> c = CHR ''Y''"
  "lower_char c = CHR ''s'' \<longleftrightarrow> c = CHR ''s'' \<or> c = CHR ''S''"
  "lower_char c = CHR ''1'' \<longleftrightarrow> c = CHR ''1''"
  by (auto simp: lower_char_def)

lemma lower_eq_Cons: "lower s = c # cs \<longleftrightarrow> (\<exists>d ds. s = d # ds \<and> lower_char d = c \<and> lower ds = cs)"
  by (cases s) (auto simp: lower_def)

lemma lower_eq_Nil: "lower s = [] \<longleftrightarrow> s = []"
  by (simp add: lower_def)

lemma lower_true:
  "lower a = ''true'' \<longleftrightarrow>
     (\<exists>c1 c2 c3 c4. a = [c1, c2, c3, c4] \<and> c1 \<in> {CHR ''t'', CHR ''T''} \<and>
        c2 \<in> {CHR ''r'', CHR ''R''} \<and> c3 \<in> {CHR ''u'', CHR ''U''} \<and> c4 \<in> {CHR ''e'', CHR ''E''})"
  (is "?L \<longleftrightarrow> ?R")
proof
  assume ?L
  then obtain c1 a1 where 1: "a = c1 # a1" "lower_char c1 = CHR ''t''" "lower a1 = ''rue''"
    by (auto simp: lower_eq_Cons)
  then obtain c2 a2 where 2: "a1 = c2 # a2" "lower_char c2 = CHR ''r''" "lower a2 = ''ue''"
    by (auto simp: lower_eq_Cons)
  then obtain c3 a3 where 3: "a2 = c3 # a3" "lower_char c3 = CHR ''u''" "lower a3 = ''e''"
    by (auto simp: lower_eq_Cons)
  then obtain c4 where 4: "a3 = [c4]" "lower_char c4 = CHR ''e''"
    by (auto simp: lower_eq_Cons lower_eq_Nil)
  have "a = [c1, c2, c3, c4]" using 1 2 3 4 by simp
  moreover have "c1 \<in> {CHR ''t'', CHR ''T''}" using 1(2) by (simp add: lower_char_cases)
  moreover have "c2 \<in> {CHR ''r'', CHR ''R''}" using 2(2) by (simp add: lower_char_cases)
  moreover have "c3 \<in> {CHR ''u'', CHR ''U''}" using 3(2) by (simp add: lower_char_cases)
  moreover have "c4 \<in> {CHR ''e'', CHR ''E''}" using 4(2) by (simp add: lower_char_cases)
  ultimately show ?R by blast
next
  assume ?R
  then obtain c1 c2 c3 c4 where a: "a = [c1, c2, c3, c4]"
    and c: "lower_char c1 = CHR ''t''" "lower_char c2 = CHR ''r''"
           "lower_char c3 = CHR ''u''" "lower_char c4 = CHR ''e''"
    by (auto simp only: lower_char_cases insert_iff empty_iff)
  show ?L by (simp add: a lower_def c)
qed

lemma lower_yes:
  "lower a = ''yes'' \<longleftrightarrow>
     (\<exists>c1 c2 c3. a = [c1, c2, c3] \<and> c1 \<in> {CHR ''y'', CHR ''Y''} \<and>
        c2 \<in> {CHR ''e'', CHR ''E''} \<and> c3 \<in> {CHR ''s'', CHR ''S''})"
  (is "?L \<longleftrightarrow> ?R")
proof
  assume ?L
  then obtain c1 a1 where 1: "a = c1 # a1" "lower_char c1 = CHR ''y''" "lower a1 = ''es''"
    by (auto simp: lower_eq_Cons)
  then obtain c2 a2 where 2: "a1 = c2 # a2" "lower_char c2 = CHR ''e''" "lower a2 = ''s''"
    by (auto simp: lower_eq_Cons)
  then obtain c3 where 3: "a2 = [c3]" "lower_char c3 = CHR ''s''"
    by (auto simp: lower_eq_Cons lower_eq_Nil)
  have "a = [c1, c2, c3]" using 1 2 3 by simp
  moreover have "c1 \<in> {CHR ''y'', CHR ''Y''}" using 1(2) by (simp add: lower_char_cases)
  moreover have "c2 \<in> {CHR ''e'', CHR ''E''}" using 2(2) by (simp add: lower_char_cases)
  moreover have "c3 \<in> {CHR ''s'', CHR ''S''}" using 3(2) by (simp add: lower_char_cases)
  ultimately show ?R by blast
next
  assume ?R
  then obtain c1 c2 c3 where a: "a = [c1, c2, c3]"
    and c: "lower_char c1 = CHR ''y''" "lower_char c2 = CHR ''e''" "lower_char c3 = CHR ''s''"
    by (auto simp only: lower_char_cases insert_iff empty_iff)
  show ?L by (simp add: a lower_def c)
qed

lemma lower_one: "lower a = ''1'' \<longleftrightarrow> a = ''1''"
  by (auto simp: lower_eq_Cons lower_eq_Nil lower_char_cases)

section \<open>The claims\<close>

subsection \<open>The entity and the query layer\<close>

text \<open>
  Claim C3. deserialize fails with ValidationError exactly when the input is bad: the
  value is not a mapping, a required key is missing, \<open>available\<close> is present but not a
  boolean, or \<open>category\<close> is present but not the name of a member. On every other input
  it returns the entity. Whether the mapping has an \<open>id\<close> key makes no difference to
  the result.
\<close>

theorem deserialize_fails_exactly_on_bad_input:
  "(deserialize p data = Inl ValidationError \<longleftrightarrow> bad_input data) \<and>
   (\<not> bad_input data \<longrightarrow> (\<exists>q. deserialize p data = Inr q)) \<and>
   deserialize p (JObj (filter (\<lambda>kv. fst kv \<noteq> ''id'') kvs)) = deserialize p (JObj kvs)"
proof (intro conjI impI)
  show "deserialize p data = Inl ValidationError \<longleftrightarrow> bad_input data"
    by (rule deserialize_bad_input)
next
  assume ok: "\<not> bad_input data"
  show "\<exists>q. deserialize p data = Inr q"
  proof (cases "deserialize p data")
    case (Inl e)
    then have "deserialize p data = Inl ValidationError"
      using deserialize_only_ValidationError by blast
    with ok show ?thesis by (simp add: deserialize_bad_input)
  next
    case (Inr q)
    then show ?thesis by blast
  qed
next
  show "deserialize p (JObj (filter (\<lambda>kv. fst kv \<noteq> ''id'') kvs)) = deserialize p (JObj kvs)"
    by (rule deserialize_without_id)
qed

theorem deserialize_fails_exactly_on_bad_input_witness:
  "bad_input yes_body \<and> deserialize Product yes_body = Inl ValidationError \<and>
   bad_input (JStr ''Fedora'') \<and> deserialize Product (JStr ''Fedora'') = Inl ValidationError \<and>
   \<not> bad_input fedora_body \<and>
   deserialize Product fedora_body = Inr (fedora\<lparr>id_field := None\<rparr>)"
  using deserialize_fails_exactly_on_bad_input [of Product yes_body "[]"]
    deserialize_fails_exactly_on_bad_input [of Product "JStr ''Fedora''" "[]"]
    deserialize_fails_exactly_on_bad_input [of Product fedora_body "[]"]
  by (simp add: bad_input_def required_keys_def yes_body_def fedora_body_def fedora_def
        deserialize_def Product_def category_of_name_def)

text \<open>
  Claim C4. For every valid field mapping, the entity built from it is returned
  unchanged, on every field, by serialize followed by deserialize into a new entity.
\<close>

theorem serialize_deserialize_roundtrip:
  assumes "valid_mapping m"
  shows "\<exists>e. entity_from m = Inr e \<and> entity_from (serialize e) = Inr e"
proof -
  from assms have "\<not> bad_input m" by (rule valid_not_bad)
  then have "deserialize Product m \<noteq> Inl ValidationError"
    by (simp add: deserialize_bad_input)
  then obtain e where e: "deserialize Product m = Inr e"
    by (cases "deserialize Product m") (auto dest: deserialize_only_ValidationError)
  from deserialize_sets [OF e] obtain b c where
    bc: "id_field e = id_field Product" "available e = Some b" "category e = Some c"
    by blast
  have "deserialize Product (serialize e) =
     Inr (Product\<lparr>name := name e, description := description e, price := price e,
           available := available e, category := category e\<rparr>)"
    using bc by (simp add: deserialize_serialize)
  also have "\<dots> = Inr e"
    using bc by (simp add: Product_def)
  finally show ?thesis using e by (simp add: entity_from_def)
qed

theorem serialize_deserialize_roundtrip_witness:
  "valid_mapping fedora_body \<and>
   entity_from fedora_body = Inr (fedora\<lparr>id_field := None\<rparr>) \<and>
   entity_from (serialize (fedora\<lparr>id_field := None\<rparr>)) = Inr (fedora\<lparr>id_field := None\<rparr>)"
proof -
  have v: "valid_mapping fedora_body"
    by (simp add: fedora_body_def valid_mapping_def category_of_name_def)
  have e: "entity_from fedora_body = Inr (fedora\<lparr>id_field := None\<rparr>)"
    by (simp add: entity_from_def fedora_body_def fedora_def deserialize_def Product_def
          category_of_name_def)
  from serialize_deserialize_roundtrip [OF v] e v show ?thesis by auto
qed

text \<open>
  Claim C5. find_by_name returns exactly the records of all() whose name equals the
  argument, find_by_category those whose category equals it and find_by_availability
  those whose availability equals it; each record is returned as often as all() has it.
\<close>

theorem queries_exact:
  "set (find_by_name db n) = {p \<in> set (all_products db). name p = JStr n} \<and>
   set (find_by_category db c) = {p \<in> set (all_products db). category p = Some c} \<and>
   set (find_by_availability db a) = {p \<in> set (all_products db). available p = Some a} \<and>
   (\<forall>p. count_list (find_by_name db n) p =
          (if name p = JStr n then count_list (all_products db) p else 0)) \<and>
   (\<forall>p. count_list (find_by_category db c) p =
          (if category p = Some c then count_list (all_products db) p else 0)) \<and>
   (\<forall>p. count_list (find_by_availability db a) p =
          (if available p = Some a then count_list (all_products db) p else 0))"
proof -
  have cnt: "count_list (filter P xs) p = (if P p then count_list xs p else 0)"
    for P :: "product \<Rightarrow> bool" and xs p
    by (induction xs) auto
  show ?thesis
    by (simp add: find_by_name_def find_by_category_def find_by_availability_def
          all_products_def cnt)
qed

theorem queries_exact_witness:
  "find_by_name shop ''Fedora'' = [fedora] \<and> find_by_category shop FOOD = [apple] \<and>
   find_by_availability shop False = [apple] \<and> all_products shop = [fedora, apple]"
  using queries_exact [where db = shop and n = "''Fedora''" and c = FOOD and a = False]
  by (simp add: find_by_name_def find_by_category_def find_by_availability_def
        all_products_def shop_def fedora_def apple_def)

subsection \<open>The request handlers\<close>

text \<open>
  Claim C1. A create request whose Content-Type is application/json and whose body is
  a valid product field mapping creates the product: the record is appended to the
  collection with the identifier the storage layer assigns (\<open>next_id\<close>, whatever \<open>id\<close>
  the body carries), and the reply is 201 with a Location header for that identifier
  and the serialized entity, whose \<open>id\<close> is the assigned one. When the storage
  invariant holds the identifier was not in use before, and the invariant is kept.
\<close>

theorem create_products_created:
  assumes ct: "map_of (headers req) ''Content-Type'' = Some ''application/json''"
    and body: "json_body req = Some data"
    and valid: "valid_mapping data"
  shows "\<exists>product product'.
           entity_from data = Inr product \<and>
           product' = product\<lparr>id_field := Some (next_id db)\<rparr> \<and>
           create_products db req =
             (db\<lparr>rows := rows db @ [product'], next_id := next_id db + 1\<rparr>,
              Reply (Json (serialize product')) 201
                [(''Location'', host_url req @ ''/api/products/'' @ str_int (next_id db))]) \<and>
           field (serialize product') ''id'' = Inr (JNum (of_int (next_id db))) \<and>
           (db_ok db \<longrightarrow>
              find_product db (next_id db) = None \<and>
              find_product (fst (create_products db req)) (next_id db) = Some product' \<and>
              db_ok (fst (create_products db req)))"
proof -
  from valid have "\<not> bad_input data" by (rule valid_not_bad)
  then have "deserialize Product data \<noteq> Inl ValidationError"
    by (simp add: deserialize_bad_input)
  then obtain product where e: "deserialize Product data = Inr product"
    by (cases "deserialize Product data") (auto dest: deserialize_only_ValidationError)
  define product' where "product' = product\<lparr>id_field := Some (next_id db)\<rparr>"
  define db' where "db' = db\<lparr>rows := rows db @ [product'], next_id := next_id db + 1\<rparr>"
  have c: "create db product = Inr (db', product')"
    by (simp add: create_def Let_def db'_def product'_def)
  have chk: "check_content_type req ''application/json'' = None"
    using ct by (simp add: check_content_type_passes)
  have run: "create_products db req =
      (db', Reply (Json (serialize product')) 201
             [(''Location'', host_url req @ ''/api/products/'' @ str_int (next_id db))])"
    unfolding create_products_def
    by (simp add: chk get_json_def body valid_truthy [OF valid] e c
          url_for_get_products_def product'_def status_defs)
  have idf: "field (serialize product') ''id'' = Inr (JNum (of_int (next_id db)))"
    by (simp add: serialize_def product'_def)
  have inv: "find_product db (next_id db) = None \<and>
       find_product (fst (create_products db req)) (next_id db) = Some product' \<and>
       db_ok (fst (create_products db req))" if ok: "db_ok db"
  proof -
    have fresh: "find_product db (next_id db) = None" using ok by (rule db_ok_fresh)
    have "find_product db' (next_id db) = Some product'"
      unfolding db'_def by (rule find_product_append_new [OF fresh]) (simp add: product'_def)
    moreover have "db_ok db'" using ok c by (rule db_ok_create)
    ultimately show ?thesis using fresh by (simp add: run)
  qed
  show ?thesis
    using e run idf inv by (auto simp: entity_from_def product'_def db'_def)
qed

theorem create_products_created_witness:
  "valid_mapping client_id_body \<and> db_ok shop \<and>
   create_products shop (json_request client_id_body) =
     (\<lparr>rows = [fedora, apple, fedora\<lparr>id_field := Some 3\<rparr>], next_id = 4\<rparr>,
      Reply (Json (serialize (fedora\<lparr>id_field := Some 3\<rparr>))) 201
        [(''Location'', ''http://localhost/api/products/3'')]) \<and>
   field (serialize (fedora\<lparr>id_field := Some 3\<rparr>)) ''id'' = Inr (JNum 3)"
proof -
  have v: "valid_mapping client_id_body"
    by (simp add: client_id_body_def valid_mapping_def category_of_name_def)
  have ok: "db_ok shop"
    by (simp add: db_ok_def stored_ids_def shop_def fedora_def apple_def)
  have h: "map_of (headers (json_request client_id_body)) ''Content-Type'' = Some ''application/json''"
    and b: "json_body (json_request client_id_body) = Some client_id_body"
    by (simp_all add: json_request_def)
  have e: "entity_from client_id_body = Inr (fedora\<lparr>id_field := None\<rparr>)"
    by (simp add: entity_from_def client_id_body_def fedora_def deserialize_def Product_def
          category_of_name_def)
  have s: "str_int 3 = ''3''"
    by (simp add: str_int_def str_nat.simps)
  from create_products_created [OF h b v, of shop] e
  have "create_products shop (json_request client_id_body) =
     (shop\<lparr>rows := rows shop @ [fedora\<lparr>id_field := Some (next_id shop)\<rparr>],
            next_id := next_id shop + 1\<rparr>,
      Reply (Json (serialize (fedora\<lparr>id_field := Some (next_id shop)\<rparr>))) 201
        [(''Location'', host_url (json_request client_id_body) @ ''/api/products/'' @
             str_int (next_id shop))])"
    by auto
  then have "create_products shop (json_request client_id_body) =
     (\<lparr>rows = [fedora, apple, fedora\<lparr>id_field := Some 3\<rparr>], next_id = 4\<rparr>,
      Reply (Json (serialize (fedora\<lparr>id_field := Some 3\<rparr>))) 201
        [(''Location'', ''http://localhost/api/products/3'')])"
    by (simp add: shop_def json_request_def s)
  moreover have "field (serialize (fedora\<lparr>id_field := Some 3\<rparr>)) ''id'' = Inr (JNum 3)"
    by (simp add: serialize_def)
  ultimately show ?thesis using v ok by simp
qed

text \<open>
  Claim C2, amended. The list request applies one filter, the first that matches: a
  \<open>name\<close> parameter that is present and not empty selects find_by_name and the other
  parameters are ignored; else a \<open>category\<close> parameter that is present and not empty
  selects find_by_category; else an \<open>available\<close> parameter that is present, empty or
  not, selects find_by_availability of its parsed value; else the result is all().
\<close>

theorem list_products_precedence:
  "(\<forall>n. map_of (args req) ''name'' = Some n \<and> n \<noteq> [] \<longrightarrow>
      list_products db by_category req =
        Reply (Json (JArr (map serialize (find_by_name db n)))) 200 []) \<and>
   (\<forall>c. \<not> truthy_arg (map_of (args req) ''name'') \<and>
        map_of (args req) ''category'' = Some c \<and> c \<noteq> [] \<longrightarrow>
      list_products db by_category req =
        Reply (Json (JArr (map serialize (by_category c)))) 200 []) \<and>
   (\<forall>a. \<not> truthy_arg (map_of (args req) ''name'') \<and>
        \<not> truthy_arg (map_of (args req) ''category'') \<and>
        map_of (args req) ''available'' = Some a \<longrightarrow>
      list_products db by_category req =
        Reply (Json (JArr (map serialize
          (find_by_availability db (lower a \<in> set [''true'', ''1'', ''yes'']))))) 200 []) \<and>
   (\<not> truthy_arg (map_of (args req) ''name'') \<and>
    \<not> truthy_arg (map_of (args req) ''category'') \<and>
    map_of (args req) ''available'' = None \<longrightarrow>
      list_products db by_category req =
        Reply (Json (JArr (map serialize (all_products db)))) 200 [])"
  by (simp add: list_products_eq)

theorem list_products_precedence_witness:
  "list_products shop (by_member_name shop)
       (query_request [(''name'', ''Fedora''), (''category'', ''FOOD''), (''available'', ''false'')]) =
     Reply (Json (JArr [serialize fedora])) 200 [] \<and>
   list_products shop (by_member_name shop)
       (query_request [(''category'', ''FOOD''), (''available'', ''true'')]) =
     Reply (Json (JArr [serialize apple])) 200 [] \<and>
   list_products shop (by_member_name shop) (query_request [(''available'', ''true'')]) =
     Reply (Json (JArr [serialize fedora])) 200 [] \<and>
   list_products shop (by_member_name shop) (query_request []) =
     Reply (Json (JArr [serialize fedora, serialize apple])) 200 []"
proof -
  let ?bc = "by_member_name shop"
  let ?r1 = "query_request [(''name'', ''Fedora''), (''category'', ''FOOD''), (''available'', ''false'')]"
  let ?r2 = "query_request [(''category'', ''FOOD''), (''available'', ''true'')]"
  let ?r3 = "query_request [(''available'', ''true'')]"
  let ?r4 = "query_request []"
  have q1: "find_by_name shop ''Fedora'' = [fedora]"
    by (simp add: find_by_name_def shop_def fedora_def apple_def)
  have q2: "by_member_name shop ''FOOD'' = [apple]"
    by (simp add: by_member_name_def category_of_name_def find_by_category_def shop_def
          fedora_def apple_def)
  have q3: "find_by_availability shop (lower ''true'' \<in> set [''true'', ''1'', ''yes'']) = [fedora]"
    by (simp add: find_by_availability_def lower_def lower_char_def shop_def fedora_def apple_def)
  have q4: "all_products shop = [fedora, apple]"
    by (simp add: all_products_def shop_def)
  from list_products_precedence [of ?r1 shop ?bc]
  have "list_products shop ?bc ?r1 = Reply (Json (JArr (map serialize (find_by_name shop ''Fedora'')))) 200 []"
    by (simp add: query_request_def)
  moreover from list_products_precedence [of ?r2 shop ?bc]
  have "list_products shop ?bc ?r2 = Reply (Json (JArr (map serialize (?bc ''FOOD'')))) 200 []"
    by (simp add: query_request_def)
  moreover from list_products_precedence [of ?r3 shop ?bc]
  have "list_products shop ?bc ?r3 =
      Reply (Json (JArr (map serialize
        (find_by_availability shop (lower ''true'' \<in> set [''true'', ''1'', ''yes''])))))  200 []"
    by (simp add: query_request_def)
  moreover from list_products_precedence [of ?r4 shop ?bc]
  have "list_products shop ?bc ?r4 = Reply (Json (JArr (map serialize (all_products shop)))) 200 []"
    by (simp add: query_request_def)
  ultimately show ?thesis
    by (simp only: q1 q2 q3 q4 list.map)
qed

text \<open>
  Claim C2 as stated fails: with \<open>name\<close> present but empty and \<open>available=true\<close>, the
  result is the availability filter (one record), not find_by_name of the empty name
  (no record).
\<close>

theorem list_products_empty_name_counterexample:
  "map_of (args (query_request [(''name'', ''''), (''available'', ''true'')])) ''name'' = Some '''' \<and>
   list_products shop (by_member_name shop)
       (query_request [(''name'', ''''), (''available'', ''true'')]) =
     Reply (Json (JArr [serialize fedora])) 200 [] \<and>
   Reply (Json (JArr (map serialize (find_by_name shop '''')))) 200 [] =
     Reply (Json (JArr [])) 200 []"
  by (simp add: list_products_eq query_request_def find_by_name_def find_by_availability_def
        lower_def lower_char_def shop_def fedora_def apple_def)

text \<open>
  Claim C6. For every update request on an existing identifier, whatever identifier
  deserialize leaves on the entity (the one of the body, for instance): the record
  stored under the identifier of the path afterwards carries that identifier, the
  identifiers of the collection are the same as before, and every other record is as
  it was. When the request is accepted, the stored record and the reply are the
  deserialized entity with the identifier of the path set on it again.
\<close>

theorem update_products_keeps_id:
  assumes found: "find_product db product_id = Some p"
  shows "(\<exists>p'. find_product (fst (update_products id_after db product_id req)) product_id
                 = Some p' \<and>
               id_field p' = Some product_id) \<and>
         stored_ids (fst (update_products id_after db product_id req)) = stored_ids db \<and>
         (\<forall>j. j \<noteq> product_id \<longrightarrow>
            find_product (fst (update_products id_after db product_id req)) j =
              find_product db j) \<and>
         (\<forall>data q.
            map_of (headers req) ''Content-Type'' = Some ''application/json'' \<and>
            json_body req = Some data \<and> truthy data \<and>
            deserialize_id id_after p data = Inr q \<longrightarrow>
            update_products id_after db product_id req =
              (db\<lparr>rows := map (\<lambda>r. if id_field r = Some product_id
                                    then q\<lparr>id_field := Some product_id\<rparr> else r) (rows db)\<rparr>,
               Reply (Json (serialize (q\<lparr>id_field := Some product_id\<rparr>))) 200 []) \<and>
            find_product (fst (update_products id_after db product_id req)) product_id =
              Some (q\<lparr>id_field := Some product_id\<rparr>))"
proof -
  let ?db' = "fst (update_products id_after db product_id req)"
  let ?put = "\<lambda>q. db\<lparr>rows := map (\<lambda>r. if id_field r = Some product_id
                                    then q\<lparr>id_field := Some product_id\<rparr> else r) (rows db)\<rparr>"
  have cases: "?db' = db \<or> (\<exists>q. ?db' = ?put q)"
    using update_products_outcome [OF found, of id_after req] by auto
  have a: "\<exists>p'. find_product ?db' product_id = Some p' \<and> id_field p' = Some product_id"
    using cases
  proof
    assume "?db' = db"
    then show ?thesis using found find_product_Some [OF found] by simp
  next
    assume "\<exists>q. ?db' = ?put q"
    then obtain q where q: "?db' = ?put q" ..
    show ?thesis
      using find_product_after_update [OF found, of "q\<lparr>id_field := Some product_id\<rparr>"]
      by (simp add: q)
  qed
  have b: "stored_ids ?db' = stored_ids db"
    using cases
  proof
    assume "?db' = db"
    then show ?thesis by simp
  next
    assume "\<exists>q. ?db' = ?put q"
    then obtain q where q: "?db' = ?put q" ..
    show ?thesis
      using stored_ids_after_update [of "q\<lparr>id_field := Some product_id\<rparr>" product_id db]
      by (simp add: q)
  qed
  have c: "find_product ?db' j = find_product db j" if other: "j \<noteq> product_id" for j
    using cases
  proof
    assume "?db' = db"
    then show ?thesis by simp
  next
    assume "\<exists>q. ?db' = ?put q"
    then obtain q where q: "?db' = ?put q" ..
    show ?thesis
      using find_product_other_after_update
        [of "q\<lparr>id_field := Some product_id\<rparr>" product_id j db] other
      by (simp add: q)
  qed
  have d: "update_products id_after db product_id req =
              (?put q, Reply (Json (serialize (q\<lparr>id_field := Some product_id\<rparr>))) 200 []) \<and>
           find_product ?db' product_id = Some (q\<lparr>id_field := Some product_id\<rparr>)"
    if h: "map_of (headers req) ''Content-Type'' = Some ''application/json'' \<and>
           json_body req = Some data \<and> truthy data \<and>
           deserialize_id id_after p data = Inr q" for data q
  proof -
    have run: "update_products id_after db product_id req =
        (?put q, Reply (Json (serialize (q\<lparr>id_field := Some product_id\<rparr>))) 200 [])"
      using update_products_success [OF found] h by blast
    moreover have "find_product ?db' product_id = Some (q\<lparr>id_field := Some product_id\<rparr>)"
      using find_product_after_update [OF found, of "q\<lparr>id_field := Some product_id\<rparr>"]
      by (simp add: run)
    ultimately show ?thesis by simp
  qed
  show ?thesis
    using a b c d by blast
qed

theorem update_products_keeps_id_witness:
  "find_product shop 1 = Some fedora \<and>
   deserialize_id id_from_body fedora update_body =
     Inr (fedora\<lparr>id_field := Some 99, name := JStr ''Updated Name''\<rparr>) \<and>
   update_products id_from_body shop 1 (json_request update_body) =
     (\<lparr>rows = [fedora\<lparr>name := JStr ''Updated Name''\<rparr>, apple], next_id = 3\<rparr>,
      Reply (Json (serialize (fedora\<lparr>name := JStr ''Updated Name''\<rparr>))) 200 []) \<and>
   id_field (fedora\<lparr>name := JStr ''Updated Name''\<rparr>) = Some 1 \<and>
   deserialize_id id_from_body fedora clash_body =
     Inr (fedora\<lparr>id_field := Some 2, name := JStr ''Updated Name''\<rparr>) \<and>
   update_products id_from_body shop 1 (json_request clash_body) =
     (\<lparr>rows = [fedora\<lparr>name := JStr ''Updated Name''\<rparr>, apple], next_id = 3\<rparr>,
      Reply (Json (serialize (fedora\<lparr>name := JStr ''Updated Name''\<rparr>))) 200 []) \<and>
   find_product (fst (update_products id_from_body shop 1 (json_request clash_body))) 2 =
     Some apple \<and>
   stored_ids (fst (update_products id_from_body shop 1 (json_request clash_body))) =
     [Some 1, Some 2]"
proof -
  have f: "find_product shop 1 = Some fedora"
    by (simp add: find_product_def shop_def fedora_def)
  have f2: "find_product shop 2 = Some apple"
    by (simp add: find_product_def shop_def fedora_def apple_def)
  have ids: "stored_ids shop = [Some 1, Some 2]"
    by (simp add: stored_ids_def shop_def fedora_def apple_def)
  have h: "map_of (headers (json_request update_body)) ''Content-Type'' = Some ''application/json''"
    and b: "json_body (json_request update_body) = Some update_body"
    and t: "truthy update_body"
    by (simp_all add: json_request_def update_body_def)
  have h': "map_of (headers (json_request clash_body)) ''Content-Type'' = Some ''application/json''"
    and b': "json_body (json_request clash_body) = Some clash_body"
    and t': "truthy clash_body"
    by (simp_all add: json_request_def clash_body_def)
  have d: "deserialize_id id_from_body fedora update_body =
      Inr (fedora\<lparr>id_field := Some 99, name := JStr ''Updated Name''\<rparr>)"
    by (simp add: deserialize_id_def deserialize_def id_from_body_def update_body_def
          category_of_name_def fedora_def)
  have d': "deserialize_id id_from_body fedora clash_body =
      Inr (fedora\<lparr>id_field := Some 2, name := JStr ''Updated Name''\<rparr>)"
    by (simp add: deserialize_id_def deserialize_def id_from_body_def clash_body_def
          category_of_name_def fedora_def)
  from update_products_keeps_id
    [OF f, where id_after = id_from_body and req = "json_request update_body"] h b t d
  have run: "update_products id_from_body shop 1 (json_request update_body) =
      (shop\<lparr>rows := map (\<lambda>r. if id_field r = Some 1
                then (fedora\<lparr>id_field := Some 99, name := JStr ''Updated Name''\<rparr>)
                       \<lparr>id_field := Some 1\<rparr>
                else r) (rows shop)\<rparr>,
       Reply (Json (serialize ((fedora\<lparr>id_field := Some 99, name := JStr ''Updated Name''\<rparr>)
                                 \<lparr>id_field := Some 1\<rparr>))) 200 [])"
    by blast
  from update_products_keeps_id
    [OF f, where id_after = id_from_body and req = "json_request clash_body"] h' b' t' d'
  have run': "update_products id_from_body shop 1 (json_request clash_body) =
      (shop\<lparr>rows := map (\<lambda>r. if id_field r = Some 1
                then (fedora\<lparr>id_field := Some 2, name := JStr ''Updated Name''\<rparr>)
                       \<lparr>id_field := Some 1\<rparr>
                else r) (rows shop)\<rparr>,
       Reply (Json (serialize ((fedora\<lparr>id_field := Some 2, name := JStr ''Updated Name''\<rparr>)
                                 \<lparr>id_field := Some 1\<rparr>))) 200 [])"
    and other: "find_product (fst (update_products id_from_body shop 1 (json_request clash_body))) 2
      = find_product shop 2"
    and ids': "stored_ids (fst (update_products id_from_body shop 1 (json_request clash_body)))
      = stored_ids shop"
    by auto
  show ?thesis
    using f d d' run run' other ids' f2 ids
    by (simp add: shop_def fedora_def apple_def)
qed

text \<open>
  Claim C7. A delete request always replies 204, whether or not a record with the
  identifier exists; afterwards find returns absent for it, and a second delete of the
  same identifier replies 204 again and leaves the collection as it is.
\<close>

theorem delete_products_idempotent:
  "snd (delete_products db product_id) = Reply (Text []) 204 [] \<and>
   find_product (fst (delete_products db product_id)) product_id = None \<and>
   delete_products (fst (delete_products db product_id)) product_id =
     (fst (delete_products db product_id), Reply (Text []) 204 [])"
proof -
  have gone: "find_product (fst (delete_products db product_id)) product_id = None"
  proof (cases "find_product db product_id")
    case None
    then show ?thesis by (simp add: delete_products_def)
  next
    case (Some p)
    then have "id_field p = Some product_id" by (simp add: find_product_Some)
    then show ?thesis by (simp add: delete_products_def Some find_product_after_delete)
  qed
  have "snd (delete_products db product_id) = Reply (Text []) 204 []"
    by (simp add: delete_products_def status_defs split: option.splits)
  moreover have "delete_products (fst (delete_products db product_id)) product_id =
     (fst (delete_products db product_id), Reply (Text []) 204 [])"
    using gone by (simp add: delete_products_def [of "fst (delete_products db product_id)"] status_defs)
  ultimately show ?thesis using gone by simp
qed

theorem delete_products_idempotent_witness:
  "delete_products shop 1 = (\<lparr>rows = [apple], next_id = 3\<rparr>, Reply (Text []) 204 []) \<and>
   find_product \<lparr>rows = [apple], next_id = 3\<rparr> 1 = None \<and>
   delete_products \<lparr>rows = [apple], next_id = 3\<rparr> 1 =
     (\<lparr>rows = [apple], next_id = 3\<rparr>, Reply (Text []) 204 [])"
proof -
  have d: "delete_products shop 1 = (\<lparr>rows = [apple], next_id = 3\<rparr>, Reply (Text []) 204 [])"
    by (simp add: delete_products_def find_product_def delete_def shop_def fedora_def
          apple_def status_defs)
  from delete_products_idempotent [of shop 1] show ?thesis
    by (simp add: d)
qed

text \<open>
  Claim C8, amended. For an identifier with no record, a read request aborts with 404;
  an update request whose Content-Type is application/json aborts with 404 whatever
  its body, and one with another or no Content-Type aborts with 415. In each case the
  collection is unchanged.
\<close>

theorem absent_id_not_found:
  assumes absent: "find_product db product_id = None"
  shows "get_products db product_id = Abort 404 (not_found_message product_id) \<and>
         update_products id_after db product_id req =
           (db, if map_of (headers req) ''Content-Type'' = Some ''application/json''
                then Abort 404 (not_found_message product_id)
                else Abort 415 ''Content-Type must be application/json'')"
proof (cases "map_of (headers req) ''Content-Type'' = Some ''application/json''")
  case True
  then have "check_content_type req ''application/json'' = None"
    by (simp add: check_content_type_passes)
  then show ?thesis
    using True by (simp add: get_products_def update_products_def absent status_defs)
next
  case False
  then show ?thesis
    by (simp add: get_products_def update_products_def absent status_defs
          check_content_type_aborts)
qed

theorem absent_id_not_found_witness:
  "find_product shop 7 = None \<and>
   get_products shop 7 =
     Abort 404 (''Product with id '' @ [CHR 0x27] @ ''7'' @ [CHR 0x27] @ '' not found'') \<and>
   update_products id_from_body shop 7 (json_request update_body) =
     (shop, Abort 404 (''Product with id '' @ [CHR 0x27] @ ''7'' @ [CHR 0x27] @ '' not found'')) \<and>
   update_products id_from_body shop 7 (charset_request update_body) =
     (shop, Abort 415 ''Content-Type must be application/json'')"
proof -
  have a: "find_product shop 7 = None"
    by (simp add: find_product_def shop_def fedora_def apple_def)
  have m: "not_found_message 7 = ''Product with id '' @ [CHR 0x27] @ ''7'' @ [CHR 0x27] @ '' not found''"
    by (simp add: not_found_message_def str_int_def str_nat.simps)
  from absent_id_not_found
      [OF a, where id_after = id_from_body and req = "json_request update_body"]
    absent_id_not_found
      [OF a, where id_after = id_from_body and req = "charset_request update_body"]
  show ?thesis
    using a by (simp add: m json_request_def charset_request_def)
qed

text \<open>
  Claim C8 as stated fails: an update request for an identifier with no record, sent
  with the Content-Type \<open>application/json; charset=utf-8\<close>, is answered 415, not 404.
\<close>

theorem put_absent_id_counterexample:
  "find_product shop 7 = None \<and>
   update_products id_from_body shop 7 (charset_request update_body) =
     (shop, Abort 415 ''Content-Type must be application/json'') \<and>
   status_code (snd (update_products id_from_body shop 7 (charset_request update_body))) \<noteq> Some 404"
  by (simp add: update_products_def check_content_type_def charset_request_def
        find_product_def shop_def fedora_def apple_def status_defs)

text \<open>
  Claim C9. When the \<open>available\<close> parameter decides the list request, it is read as
  true exactly when its lower-cased value is "true", "1" or "yes", that is when it is
  "true" or "yes" in any mix of upper and lower case or "1", and as false for every
  other string.
\<close>

theorem available_parameter_parsed:
  assumes "\<not> truthy_arg (map_of (args req) ''name'')"
    and "\<not> truthy_arg (map_of (args req) ''category'')"
    and "map_of (args req) ''available'' = Some a"
  shows "list_products db by_category req =
           Reply (Json (JArr (map serialize
             (find_by_availability db
                (lower a = ''true'' \<or> lower a = ''1'' \<or> lower a = ''yes''))))) 200 [] \<and>
         ((lower a = ''true'' \<or> lower a = ''1'' \<or> lower a = ''yes'') \<longleftrightarrow>
            (\<exists>c1 c2 c3 c4. a = [c1, c2, c3, c4] \<and> c1 \<in> {CHR ''t'', CHR ''T''} \<and>
               c2 \<in> {CHR ''r'', CHR ''R''} \<and> c3 \<in> {CHR ''u'', CHR ''U''} \<and>
               c4 \<in> {CHR ''e'', CHR ''E''}) \<or>
            a = ''1'' \<or>
            (\<exists>c1 c2 c3. a = [c1, c2, c3] \<and> c1 \<in> {CHR ''y'', CHR ''Y''} \<and>
               c2 \<in> {CHR ''e'', CHR ''E''} \<and> c3 \<in> {CHR ''s'', CHR ''S''}))"
proof
  have "(lower a \<in> set [''true'', ''1'', ''yes'']) =
      (lower a = ''true'' \<or> lower a = ''1'' \<or> lower a = ''yes'')"
    by simp
  then show "list_products db by_category req =
           Reply (Json (JArr (map serialize
             (find_by_availability db
                (lower a = ''true'' \<or> lower a = ''1'' \<or> lower a = ''yes''))))) 200 []"
    using assms by (simp add: list_products_eq)
next
  show "(lower a = ''true'' \<or> lower a = ''1'' \<or> lower a = ''yes'') \<longleftrightarrow>
            (\<exists>c1 c2 c3 c4. a = [c1, c2, c3, c4] \<and> c1 \<in> {CHR ''t'', CHR ''T''} \<and>
               c2 \<in> {CHR ''r'', CHR ''R''} \<and> c3 \<in> {CHR ''u'', CHR ''U''} \<and>
               c4 \<in> {CHR ''e'', CHR ''E''}) \<or>
            a = ''1'' \<or>
            (\<exists>c1 c2 c3. a = [c1, c2, c3] \<and> c1 \<in> {CHR ''y'', CHR ''Y''} \<and>
               c2 \<in> {CHR ''e'', CHR ''E''} \<and> c3 \<in> {CHR ''s'', CHR ''S''})"
    by (simp only: lower_true lower_one lower_yes)
qed

theorem available_parameter_parsed_witness:
  "list_products shop (by_member_name shop) (query_request [(''available'', ''TRUE'')]) =
     Reply (Json (JArr [serialize fedora])) 200 [] \<and>
   list_products shop (by_member_name shop)
       (query_request [(''name'', ''''), (''available'', ''Yes'')]) =
     Reply (Json (JArr [serialize fedora])) 200 [] \<and>
   list_products shop (by_member_name shop) (query_request [(''available'', ''on'')]) =
     Reply (Json (JArr [serialize apple])) 200 [] \<and>
   list_products shop (by_member_name shop) (query_request [(''available'', '''')]) =
     Reply (Json (JArr [serialize apple])) 200 []"
proof -
  let ?bc = "by_member_name shop"
  have t: "find_by_availability shop True = [fedora]"
    and f: "find_by_availability shop False = [apple]"
    by (simp_all add: find_by_availability_def shop_def fedora_def apple_def)
  have l: "lower ''TRUE'' = ''true''" "lower ''Yes'' = ''yes''" "lower ''on'' = ''on''" "lower '''' = ''''"
    by (simp_all add: lower_def lower_char_def)
  from available_parameter_parsed [of "query_request [(''available'', ''TRUE'')]" "''TRUE''" shop ?bc]
  have "list_products shop ?bc (query_request [(''available'', ''TRUE'')]) =
      Reply (Json (JArr [serialize fedora])) 200 []"
    by (simp add: query_request_def l t)
  moreover
  from available_parameter_parsed
    [of "query_request [(''name'', ''''), (''available'', ''Yes'')]" "''Yes''" shop ?bc]
  have "list_products shop ?bc (query_request [(''name'', ''''), (''available'', ''Yes'')]) =
      Reply (Json (JArr [serialize fedora])) 200 []"
    by (simp add: query_request_def l t)
  moreover
  from available_parameter_parsed [of "query_request [(''available'', ''on'')]" "''on''" shop ?bc]
  have "list_products shop ?bc (query_request [(''available'', ''on'')]) =
      Reply (Json (JArr [serialize apple])) 200 []"
    by (simp add: query_request_def l f)
  moreover
  from available_parameter_parsed [of "query_request [(''available'', '''')]" "''''" shop ?bc]
  have "list_products shop ?bc (query_request [(''available'', '''')]) =
      Reply (Json (JArr [serialize apple])) 200 []"
    by (simp add: query_request_def l f)
  ultimately show ?thesis by simp
qed

text \<open>
  Claim C10. The check of the Content-Type passes exactly when the header equals
  "application/json"; with a missing header or any other value, create and update
  abort with 415 and an unchanged collection, whatever the body is.
\<close>

theorem content_type_checked_first:
  "(check_content_type req ''application/json'' = None \<longleftrightarrow>
      map_of (headers req) ''Content-Type'' = Some ''application/json'') \<and>
   (map_of (headers req) ''Content-Type'' \<noteq> Some ''application/json'' \<longrightarrow>
      (\<forall>b. create_products db (req\<lparr>json_body := b\<rparr>) =
             (db, Abort 415 ''Content-Type must be application/json'') \<and>
           update_products id_after db product_id (req\<lparr>json_body := b\<rparr>) =
             (db, Abort 415 ''Content-Type must be application/json'')))"
proof (intro conjI impI allI)
  show "check_content_type req ''application/json'' = None \<longleftrightarrow>
      map_of (headers req) ''Content-Type'' = Some ''application/json''"
    by (rule check_content_type_passes)
next
  fix b
  assume wrong: "map_of (headers req) ''Content-Type'' \<noteq> Some ''application/json''"
  then have "map_of (headers (req\<lparr>json_body := b\<rparr>)) ''Content-Type'' \<noteq> Some ''application/json''"
    by simp
  then have chk: "check_content_type (req\<lparr>json_body := b\<rparr>) ''application/json'' =
      Some (Abort 415 (''Content-Type must be '' @ ''application/json''))"
    by (rule check_content_type_aborts)
  show "create_products db (req\<lparr>json_body := b\<rparr>) =
      (db, Abort 415 ''Content-Type must be application/json'')"
    by (simp add: create_products_def chk)
  show "update_products id_after db product_id (req\<lparr>json_body := b\<rparr>) =
      (db, Abort 415 ''Content-Type must be application/json'')"
    by (simp add: update_products_def chk)
qed

theorem content_type_checked_first_witness:
  "map_of (headers (charset_request fedora_body)) ''Content-Type'' \<noteq> Some ''application/json'' \<and>
   create_products shop (charset_request fedora_body) =
     (shop, Abort 415 ''Content-Type must be application/json'') \<and>
   update_products id_from_body shop 1 (charset_request fedora_body) =
     (shop, Abort 415 ''Content-Type must be application/json'') \<and>
   map_of (headers (query_request [])) ''Content-Type'' = None \<and>
   create_products shop (query_request []) =
     (shop, Abort 415 ''Content-Type must be application/json'') \<and>
   check_content_type (json_request fedora_body) ''application/json'' = None"
proof -
  have w1: "map_of (headers (charset_request fedora_body)) ''Content-Type'' \<noteq> Some ''application/json''"
    by (simp add: charset_request_def)
  have w2: "map_of (headers (query_request [])) ''Content-Type'' \<noteq> Some ''application/json''"
    by (simp add: query_request_def)
  have r1: "(charset_request fedora_body)\<lparr>json_body := Some fedora_body\<rparr> = charset_request fedora_body"
    by (simp add: charset_request_def)
  have r2: "(query_request [])\<lparr>json_body := None\<rparr> = query_request []"
    by (simp add: query_request_def)
  from content_type_checked_first
      [where req = "charset_request fedora_body" and db = shop and product_id = 1 and
        id_after = id_from_body] w1
  have "create_products shop ((charset_request fedora_body)\<lparr>json_body := Some fedora_body\<rparr>) =
          (shop, Abort 415 ''Content-Type must be application/json'')"
    and "update_products id_from_body shop 1 ((charset_request fedora_body)\<lparr>json_body := Some fedora_body\<rparr>) =
          (shop, Abort 415 ''Content-Type must be application/json'')"
    by blast+
  moreover from content_type_checked_first
      [where req = "query_request []" and db = shop and product_id = 1 and
        id_after = id_from_body] w2
  have "create_products shop ((query_request [])\<lparr>json_body := None\<rparr>) =
          (shop, Abort 415 ''Content-Type must be application/json'')"
    by blast
  moreover from content_type_checked_first
      [where req = "json_request fedora_body" and db = shop and product_id = 1 and
        id_after = id_from_body]
  have "check_content_type (json_request fedora_body) ''application/json'' = None"
    by (simp add: json_request_def)
  ultimately show ?thesis
    using w1 by (simp add: r1 r2) (simp add: query_request_def)
qed

end
